theory Spec2Isabelle
  imports Main "HOL-Library.Word"
begin

unbundle bit_operations_syntax

section \<open>Data model\<close>

subsection \<open>Function pointers\<close>

text \<open>
  The program stores function pointers in three places: the fields of
  \<^verbatim>\<open>struct esptouch_cb\<close> (esp_touch.h; the field \<^verbatim>\<open>esptouch_fail_cb\<close> is
  \<open>esptouch_fail_cb_ptr\<close> here, since the function of that name takes the name), the
  callback of an \<^verbatim>\<open>os_timer_t\<close> and the WiFi event handler. A pointer is the name
  of the function it points to; a nullable pointer is an \<open>option\<close>, \<open>None\<close> being
  \<^verbatim>\<open>NULL\<close>.
\<close>

datatype esptouch_fn = Esptouch_start_cb | Esptouch_fail_cb | Esptouch_success_cb

datatype func =
    Led_blink_timerfunc
  | Router_conn_timeout_wdtfunc
  | Esptouch_over_timerfunc
  | Vital_sign_broadcast
  | Esptouch esptouch_fn

datatype wifi_event_handler = Wifi_handle_event_cb

record esptouch_cb =
  esptouch_start_cb_ptr :: "esptouch_fn option"
  esptouch_fail_cb_ptr :: "esptouch_fn option"
  esptouch_suc_cb_ptr :: "esptouch_fn option"

subsection \<open>Software timers\<close>

text \<open>
  An \<^verbatim>\<open>os_timer_t\<close> lives on the heap (\<^verbatim>\<open>os_zalloc\<close>, \<^verbatim>\<open>os_free\<close>). The
  heap of timers is a map from addresses to timer objects; a handle is an address,
  or \<open>None\<close> for \<^verbatim>\<open>NULL\<close>.
\<close>

record os_timer =
  timer_armed :: bool
  timer_period :: nat
  timer_repeat :: bool
  timer_func :: "func option"
  timer_arg :: "nat option"

subsection \<open>Network values\<close>

type_synonym ip_addr = "32 word"

record ip_info =
  ip :: ip_addr
  netmask :: ip_addr
  gw :: ip_addr

record dhcps_lease =
  start_ip :: ip_addr
  end_ip :: ip_addr

text \<open>
  Modelled from the spec: the declaration of \<^verbatim>\<open>struct portmap_table\<close>
  (lwip/lwip_napt.h) is not among the sources. An entry carries the validity flag and
  the mapping address that router.c reads and writes, and the other fields the spec
  lists for a port-map entry.
\<close>

record portmap_table =
  valid :: "8 word"
  proto :: "8 word"
  maddr :: ip_addr
  mport :: "16 word"
  daddr :: ip_addr
  dport :: "16 word"
  dir :: "8 word"

record esp_udp =
  local_port :: nat

record espconn =
  conn_type :: nat
  conn_state :: nat
  proto_udp :: "esp_udp option"

subsection \<open>Calls into the SDK\<close>

text \<open>
  The SDK and lwIP are not part of the repository. Every call into them whose effect
  lies outside the program's own variables is recorded, in order, in a trace; with the
  arguments where they matter.
\<close>

datatype sdk_call =
    Os_zalloc
  | Wifi_station_disconnect
  | Wifi_station_set_config
  | Wifi_station_connect
  | Wifi_set_opmode nat
  | Wifi_get_opmode
  | Wifi_get_macaddr nat
  | Wifi_get_ip_info nat
  | Wifi_softap_set_config
  | Wifi_softap_dhcps_stop
  | Wifi_set_ip_info nat ip_info
  | Wifi_softap_set_dhcps_lease dhcps_lease
  | Wifi_softap_dhcps_start
  | Wifi_set_broadcast_if nat
  | Ip_napt_enable ip_addr nat
  | Dhcps_set_DNS ip_addr
  | Ip_portmap_add int ip_addr int ip_addr int int
  | Smartconfig_start
  | Smartconfig_stop
  | Espconn_create
  | Espconn_regist_recvcb
  | Espconn_send

subsection \<open>The state of the device\<close>

record state =
  \<comment> \<open>GPIO registers and the GPIO interrupt\<close>
  gpio_out :: "32 word"
  gpio_enable :: "32 word"
  gpio_status :: "32 word"
  gpio_intr_enabled :: bool
  \<comment> \<open>heap of timers\<close>
  timers :: "nat \<Rightarrow> os_timer option"
  next_addr :: nat
  \<comment> \<open>user_main.c\<close>
  led_blink_timer :: "nat option"
  router_conn_timeout_wdt :: "nat option"
  \<comment> \<open>esp_touch.c\<close>
  esptouch_func :: esptouch_cb
  esptouch_running :: bool
  esptouch_success :: bool
  esptouch_attempt_count :: "8 word"
  esptouch_timeout_timer :: "nat option"
  \<comment> \<open>router.c\<close>
  router_connected :: bool
  \<comment> \<open>device_info.c\<close>
  udp_com_socket :: "espconn option"
  vital_sign_timer :: "nat option"
  \<comment> \<open>lwIP and SDK\<close>
  ip_portmap_table :: "portmap_table list option"
  wifi_event_handler_cb :: "wifi_event_handler option"
  trace :: "sdk_call list"

subsection \<open>What the environment decides\<close>

text \<open>
  The value an SDK call returns is decided outside the program. \<open>sdk_ret\<close> gives it
  from the calls made so far and the call itself, so that two runs may differ in every
  answer. \<open>ipaddr_addr\<close> is lwIP's parser of dotted addresses; \<open>ip_portmap_add\<close> is
  the translation engine's install function, which returns non-zero on success and may
  rewrite the port-map table.
\<close>

record extern =
  sdk_ret :: "sdk_call list \<Rightarrow> sdk_call \<Rightarrow> nat"
  ipaddr_addr :: "string \<Rightarrow> ip_addr"
  ip_portmap_add :: "int \<Rightarrow> ip_addr \<Rightarrow> int \<Rightarrow> ip_addr \<Rightarrow> int \<Rightarrow> int \<Rightarrow>
     portmap_table list option \<Rightarrow> nat \<times> portmap_table list option"

subsection \<open>user_config.h\<close>

text \<open>
  One port-map slot of user_config.h: \<^verbatim>\<open>PORTMAP_ENABLE_n\<close>, \<^verbatim>\<open>PORTMAP_PROTO_n\<close>
  and so on. The macros are integer literals, the destination address a string literal
  or \<^verbatim>\<open>0\<close>.
\<close>

record portmap_slot =
  PORTMAP_ENABLE :: int
  PORTMAP_PROTO :: int
  PORTMAP_MPORT :: int
  PORTMAP_DADDR :: "string option"
  PORTMAP_DPORT :: int
  PORTMAP_DIR :: int

record user_config =
  WIFI_AP_NETWORK_ADDR :: string
  WIFI_AP_NETWORK_NETMASK :: string
  WIFI_AP_NETWORK_GW :: string
  DHCP_START_ADDR :: string
  DHCP_STOP_ADDR :: string
  DNS_SERVER_IP :: "string option"
  PORTMAP :: "portmap_slot list"

definition unused_slot :: portmap_slot where
  "unused_slot = \<lparr>PORTMAP_ENABLE = 0, PORTMAP_PROTO = 0, PORTMAP_MPORT = 0,
     PORTMAP_DADDR = None, PORTMAP_DPORT = 0, PORTMAP_DIR = 0\<rparr>"

definition user_config_h :: user_config where
  "user_config_h = \<lparr>
     WIFI_AP_NETWORK_ADDR = ''192.168.13.1'',
     WIFI_AP_NETWORK_NETMASK = ''255.255.255.0'',
     WIFI_AP_NETWORK_GW = ''192.168.13.1'',
     DHCP_START_ADDR = ''192.168.13.2'',
     DHCP_STOP_ADDR = ''192.168.13.64'',
     DNS_SERVER_IP = None,
     PORTMAP = [
       \<lparr>PORTMAP_ENABLE = 1, PORTMAP_PROTO = 6, PORTMAP_MPORT = 8883,
        PORTMAP_DADDR = Some ''192.168.13.37'', PORTMAP_DPORT = 8883, PORTMAP_DIR = 2\<rparr>,
       unused_slot, unused_slot, unused_slot, unused_slot, unused_slot, unused_slot,
       unused_slot]\<rparr>"

definition ROUTER_CONN_TIMEOUT_WDT_INTERVAL :: nat where
  "ROUTER_CONN_TIMEOUT_WDT_INTERVAL = 300000"

definition OUTPUT_POWER_RELAY_GPIO :: nat where
  "OUTPUT_POWER_RELAY_GPIO = 12"

definition BUTTON_INTERRUPT_GPIO :: nat where
  "BUTTON_INTERRUPT_GPIO = 0"

definition STATUS_LED_GPIO :: nat where
  "STATUS_LED_GPIO = 13"

definition LED_BLINK_INTERVAL :: nat where
  "LED_BLINK_INTERVAL = 2000"

definition VITAL_SIGN_TIME_INTERVAL :: nat where
  "VITAL_SIGN_TIME_INTERVAL = 300000"

definition DEVICE_COM_PORT :: nat where
  "DEVICE_COM_PORT = 49152"

definition ESP_TOUCH_ATTEMPTS_LIMIT :: int where
  "ESP_TOUCH_ATTEMPTS_LIMIT = 3"

definition ESP_TOUCH_CONFIG_TIMEOUT_THRESHOLD :: nat where
  "ESP_TOUCH_CONFIG_TIMEOUT_THRESHOLD = 30000"

definition ESP_TOUCH_RECV_TIMEOUT_THRESHOLD :: nat where
  "ESP_TOUCH_RECV_TIMEOUT_THRESHOLD = 30000"

definition ESP_TOUCH_CONNECTION_TIMEOUT_THRESHOLD :: nat where
  "ESP_TOUCH_CONNECTION_TIMEOUT_THRESHOLD = 60000"

subsection \<open>Constants of the SDK headers\<close>

definition NULL_MODE :: nat where "NULL_MODE = 0"
definition STATION_MODE :: nat where "STATION_MODE = 1"
definition SOFTAP_MODE :: nat where "SOFTAP_MODE = 2"
definition STATIONAP_MODE :: nat where "STATIONAP_MODE = 3"
definition STATION_IF :: nat where "STATION_IF = 0"
definition SOFTAP_IF :: nat where "SOFTAP_IF = 1"
definition ESPCONN_UDP :: nat where "ESPCONN_UDP = 32"
definition ESPCONN_NONE :: nat where "ESPCONN_NONE = 0"

section \<open>SDK primitives\<close>

text \<open>An SDK call whose result the program looks at, and one whose result it drops.\<close>

definition sdk :: "extern \<Rightarrow> sdk_call \<Rightarrow> state \<Rightarrow> nat \<times> state" where
  "sdk env c s = (sdk_ret env (trace s) c, s\<lparr>trace := trace s @ [c]\<rparr>)"

definition sdk_void :: "sdk_call \<Rightarrow> state \<Rightarrow> state" where
  "sdk_void c s = s\<lparr>trace := trace s @ [c]\<rparr>"

text \<open>
  \<^verbatim>\<open>os_zalloc(sizeof(os_timer_t))\<close>: either \<^verbatim>\<open>NULL\<close>, or the address of a
  fresh, zeroed timer.
\<close>

definition zeroed_timer :: os_timer where
  "zeroed_timer = \<lparr>timer_armed = False, timer_period = 0, timer_repeat = False,
     timer_func = None, timer_arg = None\<rparr>"

definition os_zalloc_timer :: "extern \<Rightarrow> state \<Rightarrow> nat option \<times> state" where
  "os_zalloc_timer env s =
     (case sdk env Os_zalloc s of (r, s') \<Rightarrow>
        if r = 0 then (None, s')
        else (Some (next_addr s'),
              s'\<lparr>timers := (timers s')(next_addr s' \<mapsto> zeroed_timer),
                 next_addr := Suc (next_addr s')\<rparr>))"

definition os_free_timer :: "nat \<Rightarrow> state \<Rightarrow> state" where
  "os_free_timer p s = s\<lparr>timers := (timers s)(p := None)\<rparr>"

definition os_timer_disarm :: "nat \<Rightarrow> state \<Rightarrow> state" where
  "os_timer_disarm p s =
     s\<lparr>timers := (timers s)(p := map_option (\<lambda>t. t\<lparr>timer_armed := False\<rparr>) (timers s p))\<rparr>"

definition os_timer_setfn :: "nat \<Rightarrow> func option \<Rightarrow> nat option \<Rightarrow> state \<Rightarrow> state" where
  "os_timer_setfn p f a s =
     s\<lparr>timers := (timers s)(p := map_option (\<lambda>t. t\<lparr>timer_func := f, timer_arg := a\<rparr>)
         (timers s p))\<rparr>"

definition os_timer_arm :: "nat \<Rightarrow> nat \<Rightarrow> bool \<Rightarrow> state \<Rightarrow> state" where
  "os_timer_arm p ms rep s =
     s\<lparr>timers := (timers s)(p := map_option
         (\<lambda>t. t\<lparr>timer_armed := True, timer_period := ms, timer_repeat := rep\<rparr>) (timers s p))\<rparr>"

text \<open>GPIO: \<^verbatim>\<open>BIT(n)\<close>, \<^verbatim>\<open>gpio_output_set\<close> and the interrupt macros.\<close>

definition BIT :: "nat \<Rightarrow> 32 word" where
  "BIT n = push_bit n 1"

definition gpio_output_set :: "32 word \<Rightarrow> 32 word \<Rightarrow> 32 word \<Rightarrow> 32 word \<Rightarrow> state \<Rightarrow> state" where
  "gpio_output_set set_mask clear_mask enable_mask disable_mask s =
     s\<lparr>gpio_out := (gpio_out s OR set_mask) AND NOT clear_mask,
       gpio_enable := (gpio_enable s OR enable_mask) AND NOT disable_mask\<rparr>"

definition ETS_GPIO_INTR_DISABLE :: "state \<Rightarrow> state" where
  "ETS_GPIO_INTR_DISABLE s = s\<lparr>gpio_intr_enabled := False\<rparr>"

definition ETS_GPIO_INTR_ENABLE :: "state \<Rightarrow> state" where
  "ETS_GPIO_INTR_ENABLE s = s\<lparr>gpio_intr_enabled := True\<rparr>"

definition GPIO_STATUS_W1TC :: "32 word \<Rightarrow> state \<Rightarrow> state" where
  "GPIO_STATUS_W1TC bits s = s\<lparr>gpio_status := gpio_status s AND NOT bits\<rparr>"

text \<open>
  lwIP's \<^verbatim>\<open>ip4_addr4\<close> is the byte at offset 3 of the address. The processor is
  little-endian, so that byte is bits 24 to 31 of the 32-bit value.
\<close>

definition ip4_addr4 :: "ip_addr \<Rightarrow> 8 word" where
  "ip4_addr4 a = ucast (drop_bit 24 a)"

definition ip4_addr4_set :: "ip_addr \<Rightarrow> 8 word \<Rightarrow> ip_addr" where
  "ip4_addr4_set a v = (a AND 0x00FFFFFF) OR push_bit 24 (ucast v)"

section \<open>router.c\<close>

definition is_connected :: "state \<Rightarrow> bool" where
  "is_connected s = router_connected s"

text \<open>
  The loop of \<^verbatim>\<open>portmap_update\<close> over the indices below \<^verbatim>\<open>IP_PORTMAP_MAX\<close>, the
  number of entries of the table.
\<close>

function portmap_update_loop :: "ip_addr \<Rightarrow> nat \<Rightarrow> portmap_table list \<Rightarrow> portmap_table list" where
  "portmap_update_loop addr idx tbl =
     (if idx < length tbl then
        portmap_update_loop addr (Suc idx)
          (if valid (tbl ! idx) \<noteq> 0 then tbl[idx := (tbl ! idx)\<lparr>maddr := addr\<rparr>] else tbl)
      else tbl)"
  by pat_completeness auto
termination
  by (relation "measure (\<lambda>(addr, idx, tbl). length tbl - idx)") auto

definition portmap_update :: "ip_addr option \<Rightarrow> state \<Rightarrow> state" where
  "portmap_update station_ip_addr s =
     (case station_ip_addr of
        None \<Rightarrow> s
      | Some addr \<Rightarrow>
          (case ip_portmap_table s of
             None \<Rightarrow> s
           | Some tbl \<Rightarrow> s\<lparr>ip_portmap_table := Some (portmap_update_loop addr 0 tbl)\<rparr>))"

definition dns_set :: "extern \<Rightarrow> user_config \<Rightarrow> state \<Rightarrow> state" where
  "dns_set env cfg s =
     (let dns_server_ip =
            (case DNS_SERVER_IP cfg of
               Some a \<Rightarrow> ipaddr_addr env a
             | None \<Rightarrow> 0x08080808)
      in sdk_void (Dhcps_set_DNS dns_server_ip) s)"

definition softap_network_config :: "extern \<Rightarrow> user_config \<Rightarrow> state \<Rightarrow> bool \<times> state" where
  "softap_network_config env cfg s =
     (case sdk env Wifi_softap_dhcps_stop s of (r1, s1) \<Rightarrow>
      if r1 \<noteq> 0 then
        let softap_info = \<lparr>
              ip = ip4_addr4_set (ipaddr_addr env (WIFI_AP_NETWORK_ADDR cfg)) 1,
              netmask = ipaddr_addr env (WIFI_AP_NETWORK_NETMASK cfg),
              gw = ipaddr_addr env (WIFI_AP_NETWORK_GW cfg)\<rparr>
        in (case sdk env (Wifi_set_ip_info SOFTAP_IF softap_info) s1 of (r2, s2) \<Rightarrow>
            if r2 \<noteq> 0 then
              let dhcp_lease = \<lparr>
                    start_ip = ipaddr_addr env (DHCP_START_ADDR cfg),
                    end_ip = ipaddr_addr env (DHCP_STOP_ADDR cfg)\<rparr>
              in (case sdk env (Wifi_softap_set_dhcps_lease dhcp_lease) s2 of (r3, s3) \<Rightarrow>
                  if r3 \<noteq> 0 then
                    (case sdk env Wifi_softap_dhcps_start s3 of (r4, s4) \<Rightarrow>
                     if r4 \<noteq> 0 then
                       (True, sdk_void (Wifi_set_broadcast_if STATIONAP_MODE)
                                (sdk_void (Ip_napt_enable (ip softap_info) 1) s4))
                     else (False, s4))
                  else (False, s3))
            else (False, s2))
      else (False, s1))"

text \<open>
  \<^verbatim>\<open>softap_init\<close>: the access-point configuration it builds (SSID from the prefix
  and the MAC address, password, limits) goes to \<^verbatim>\<open>wifi_softap_set_config\<close> and
  nowhere else; the trace records the call without it.
\<close>

definition softap_init :: "extern \<Rightarrow> state \<Rightarrow> bool \<times> state" where
  "softap_init env s =
     (case sdk env Wifi_get_opmode s of (m, s1) \<Rightarrow>
      if m \<ge> SOFTAP_MODE then
        (case sdk env (Wifi_get_macaddr SOFTAP_IF) s1 of (r2, s2) \<Rightarrow>
         if r2 \<noteq> 0 then
           (case sdk env Wifi_softap_set_config s2 of (r3, s3) \<Rightarrow>
            if r3 \<noteq> 0 then (True, s3) else (False, s3))
         else (False, s2))
      else (False, s1))"

text \<open>
  \<^verbatim>\<open>portmap_init\<close> is the same block written once per slot; the model runs the
  block over the list of slots, in order.
\<close>

fun portmap_init_slots :: "extern \<Rightarrow> portmap_slot list \<Rightarrow> state \<Rightarrow> bool \<times> state" where
  "portmap_init_slots env [] s = (True, s)"
| "portmap_init_slots env (p # ps) s =
     (if PORTMAP_ENABLE p \<noteq> 0 then
        (case PORTMAP_DADDR p of
           Some a \<Rightarrow>
             if PORTMAP_PROTO p \<noteq> 0 \<and> PORTMAP_MPORT p \<noteq> 0 \<and> PORTMAP_DPORT p \<noteq> 0
                \<and> PORTMAP_DIR p \<noteq> 0 then
               (case ip_portmap_add env (PORTMAP_PROTO p) 0 (PORTMAP_MPORT p)
                       (ipaddr_addr env a) (PORTMAP_DPORT p) (PORTMAP_DIR p)
                       (ip_portmap_table s) of
                  (r, tbl) \<Rightarrow>
                    let s' = s\<lparr>ip_portmap_table := tbl,
                               trace := trace s @ [Ip_portmap_add (PORTMAP_PROTO p) 0
                                 (PORTMAP_MPORT p) (ipaddr_addr env a) (PORTMAP_DPORT p)
                                 (PORTMAP_DIR p)]\<rparr>
                    in if r = 0 then (False, s') else portmap_init_slots env ps s')
             else portmap_init_slots env ps s
         | None \<Rightarrow> portmap_init_slots env ps s)
      else portmap_init_slots env ps s)"

definition portmap_init :: "extern \<Rightarrow> user_config \<Rightarrow> state \<Rightarrow> bool \<times> state" where
  "portmap_init env cfg s = portmap_init_slots env (PORTMAP cfg) s"

definition router_init :: "extern \<Rightarrow> user_config \<Rightarrow> state \<Rightarrow> state" where
  "router_init env cfg s =
     (case portmap_init env cfg (s\<lparr>router_connected := False\<rparr>) of (ok, s1) \<Rightarrow>
        s1\<lparr>wifi_event_handler_cb := Some Wifi_handle_event_cb\<rparr>)"

datatype System_Event =
    EVENT_STAMODE_CONNECTED
  | EVENT_STAMODE_DISCONNECTED
  | EVENT_STAMODE_AUTHMODE_CHANGE
  | EVENT_STAMODE_GOT_IP ip_addr
  | EVENT_SOFTAPMODE_STACONNECTED
  | EVENT_SOFTAPMODE_STADISCONNECTED
  | EVENT_OTHER

fun wifi_handle_event_cb :: "extern \<Rightarrow> user_config \<Rightarrow> System_Event \<Rightarrow> state \<Rightarrow> state" where
  "wifi_handle_event_cb env cfg EVENT_STAMODE_CONNECTED s = s"
| "wifi_handle_event_cb env cfg EVENT_STAMODE_DISCONNECTED s = s\<lparr>router_connected := False\<rparr>"
| "wifi_handle_event_cb env cfg EVENT_STAMODE_AUTHMODE_CHANGE s = s"
| "wifi_handle_event_cb env cfg (EVENT_STAMODE_GOT_IP got_ip) s =
     (let s0 = portmap_update (Some got_ip) s in
      case sdk env (Wifi_set_opmode STATIONAP_MODE) s0 of (r1, s1) \<Rightarrow>
      if r1 \<noteq> 0 then
        (case softap_init env s1 of (ok2, s2) \<Rightarrow>
         if ok2 then
           (case softap_network_config env cfg s2 of (ok3, s3) \<Rightarrow>
            if ok3 then (dns_set env cfg s3)\<lparr>router_connected := True\<rparr> else s3)
         else s2)
      else s1)"
| "wifi_handle_event_cb env cfg EVENT_SOFTAPMODE_STACONNECTED s = s"
| "wifi_handle_event_cb env cfg EVENT_SOFTAPMODE_STADISCONNECTED s = s"
| "wifi_handle_event_cb env cfg EVENT_OTHER s = s"

section \<open>esp_touch.c\<close>

text \<open>
  The static \<^verbatim>\<open>smartconfig_type\<close> is written once and never read; the model does
  not carry it.
\<close>

definition esptouch_is_running :: "state \<Rightarrow> bool" where
  "esptouch_is_running s = esptouch_running s"

definition esptouch_was_successful :: "state \<Rightarrow> bool" where
  "esptouch_was_successful s = esptouch_success s"

definition esptouch_success_cb :: "state \<Rightarrow> state" where
  "esptouch_success_cb s =
     (let s1 = (case esptouch_timeout_timer s of
                  Some p \<Rightarrow> (os_free_timer p (os_timer_disarm p s))\<lparr>esptouch_timeout_timer := None\<rparr>
                | None \<Rightarrow> s)
      in s1\<lparr>esptouch_running := False, esptouch_success := True\<rparr>)"

definition esptouch_start_cb :: "state \<Rightarrow> state" where
  "esptouch_start_cb s = s"

definition esptouch_fail_cb :: "state \<Rightarrow> state" where
  "esptouch_fail_cb s =
     (let s1 = sdk_void Wifi_station_disconnect (sdk_void Smartconfig_stop s);
          s2 = (case esptouch_timeout_timer s1 of
                  Some p \<Rightarrow> os_timer_disarm p s1
                | None \<Rightarrow> s1)
      in if uint (esptouch_attempt_count s2) < ESP_TOUCH_ATTEMPTS_LIMIT then
           let s3 = s2\<lparr>esptouch_attempt_count := esptouch_attempt_count s2 + 1\<rparr>;
               s4 = (case esptouch_timeout_timer s3 of
                       Some p \<Rightarrow>
                         os_timer_arm p ESP_TOUCH_CONFIG_TIMEOUT_THRESHOLD False
                           (os_timer_setfn p
                              (map_option Esptouch (esptouch_fail_cb_ptr (esptouch_func s3)))
                              None s3)
                     | None \<Rightarrow> s3)
           in sdk_void Smartconfig_start s4
         else
           let s3 = (case esptouch_timeout_timer s2 of
                       Some p \<Rightarrow> (os_free_timer p s2)\<lparr>esptouch_timeout_timer := None\<rparr>
                     | None \<Rightarrow> s2)
           in s3\<lparr>esptouch_running := False\<rparr>)"

text \<open>A call through one of the pointers of \<^verbatim>\<open>esptouch_func\<close>.\<close>

fun call_esptouch_fn :: "esptouch_fn \<Rightarrow> state \<Rightarrow> state" where
  "call_esptouch_fn Esptouch_start_cb s = esptouch_start_cb s"
| "call_esptouch_fn Esptouch_fail_cb s = esptouch_fail_cb s"
| "call_esptouch_fn Esptouch_success_cb s = esptouch_success_cb s"

definition esptouch_disable :: "state \<Rightarrow> state" where
  "esptouch_disable s =
     (let s1 = sdk_void Smartconfig_stop s;
          s2 = (case esptouch_timeout_timer s1 of
                  Some p \<Rightarrow> (os_free_timer p (os_timer_disarm p s1))\<lparr>esptouch_timeout_timer := None\<rparr>
                | None \<Rightarrow> s1)
      in s2\<lparr>esptouch_running := False\<rparr>)"

text \<open>
  The timer is re-armed where the source tests
  \<^verbatim>\<open>esptouch_timeout_timer && esptouch_func.esptouch_fail_cb\<close>.
\<close>

definition esptouch_rearm :: "nat \<Rightarrow> state \<Rightarrow> state" where
  "esptouch_rearm ms s =
     (case esptouch_timeout_timer s of
        Some p \<Rightarrow>
          (case esptouch_fail_cb_ptr (esptouch_func s) of
             Some f \<Rightarrow> os_timer_arm p ms False
                         (os_timer_setfn p (Some (Esptouch f)) None (os_timer_disarm p s))
           | None \<Rightarrow> s)
      | None \<Rightarrow> s)"

datatype sc_status =
    SC_STATUS_WAIT
  | SC_STATUS_FIND_CHANNEL
  | SC_STATUS_GETTING_SSID_PSWD
  | SC_STATUS_LINK
  | SC_STATUS_LINK_OVER

fun esptouch_status_cb :: "extern \<Rightarrow> sc_status \<Rightarrow> state \<Rightarrow> state" where
  "esptouch_status_cb env SC_STATUS_WAIT s = s"
| "esptouch_status_cb env SC_STATUS_FIND_CHANNEL s =
     (case esptouch_start_cb_ptr (esptouch_func s) of
        Some f \<Rightarrow> call_esptouch_fn f s
      | None \<Rightarrow> s)"
| "esptouch_status_cb env SC_STATUS_GETTING_SSID_PSWD s =
     esptouch_rearm ESP_TOUCH_RECV_TIMEOUT_THRESHOLD s"
| "esptouch_status_cb env SC_STATUS_LINK s =
     (case sdk env Wifi_station_set_config (sdk_void Wifi_station_disconnect s) of (r, s1) \<Rightarrow>
      let s2 = (if r \<noteq> 0 then sdk_void Wifi_station_connect s1 else esptouch_disable s1)
      in esptouch_rearm ESP_TOUCH_CONNECTION_TIMEOUT_THRESHOLD s2)"
| "esptouch_status_cb env SC_STATUS_LINK_OVER s =
     (let s1 = sdk_void Smartconfig_stop s
      in case esptouch_suc_cb_ptr (esptouch_func s1) of
           Some f \<Rightarrow> call_esptouch_fn f s1
         | None \<Rightarrow> s1)"

text \<open>
  In \<^verbatim>\<open>esptouch_init\<close> the test \<^verbatim>\<open>if (esptouch_status_cb)\<close> is on the address of
  a function and always holds, so smartconfig is always started.
\<close>

definition esptouch_init :: "extern \<Rightarrow> state \<Rightarrow> state" where
  "esptouch_init env s =
     (let s1 = s\<lparr>esptouch_running := True, esptouch_success := False,
                 esptouch_attempt_count := 1\<rparr>;
          s2 = sdk_void (Wifi_set_opmode STATION_MODE) (sdk_void Wifi_station_disconnect s1);
          s3 = s2\<lparr>esptouch_func := \<lparr>esptouch_start_cb_ptr = Some Esptouch_start_cb,
                                     esptouch_fail_cb_ptr = Some Esptouch_fail_cb,
                                     esptouch_suc_cb_ptr = Some Esptouch_success_cb\<rparr>\<rparr>
      in case os_zalloc_timer env s3 of (p, s4) \<Rightarrow>
           sdk_void Smartconfig_start
             (esptouch_rearm ESP_TOUCH_CONFIG_TIMEOUT_THRESHOLD
                (s4\<lparr>esptouch_timeout_timer := p\<rparr>)))"

section \<open>device_info.c\<close>

text \<open>
  The responder's message buffer and the remote address of its socket are not carried
  by the model; a function that dereferences a null socket has no result (\<open>None\<close>).
\<close>

definition vital_sign_bcast_stop :: "state \<Rightarrow> state" where
  "vital_sign_bcast_stop s =
     (case vital_sign_timer s of
        Some p \<Rightarrow> (os_free_timer p (os_timer_disarm p s))\<lparr>vital_sign_timer := None\<rparr>
      | None \<Rightarrow> s)"

definition vital_sign_broadcast :: "extern \<Rightarrow> state \<Rightarrow> state option" where
  "vital_sign_broadcast env s =
     (case sdk env Wifi_get_opmode s of (op_mode, s1) \<Rightarrow>
      if op_mode = SOFTAP_MODE \<or> op_mode = STATION_MODE \<or> op_mode = STATIONAP_MODE then
        let ifc = (if op_mode = SOFTAP_MODE then SOFTAP_IF else STATION_IF);
            s2 = sdk_void (Wifi_get_macaddr ifc) (sdk_void (Wifi_get_ip_info ifc) s1)
        in (case udp_com_socket s2 of
              None \<Rightarrow> None
            | Some c \<Rightarrow>
                (case proto_udp c of
                   None \<Rightarrow> None
                 | Some u \<Rightarrow> Some (sdk_void Espconn_send s2)))
      else Some s1)"

definition vital_sign_bcast_start :: "extern \<Rightarrow> state \<Rightarrow> state" where
  "vital_sign_bcast_start env s =
     (case udp_com_socket s of
        None \<Rightarrow> s
      | Some c \<Rightarrow>
          let s1 = sdk_void (Wifi_set_broadcast_if STATIONAP_MODE) s;
              s2 = (case vital_sign_timer s1 of
                      None \<Rightarrow> (case os_zalloc_timer env s1 of (p, s') \<Rightarrow>
                                  s'\<lparr>vital_sign_timer := p\<rparr>)
                    | Some p \<Rightarrow> s1)
          in (case vital_sign_timer s2 of
                None \<Rightarrow> s2
              | Some p \<Rightarrow>
                  os_timer_arm p VITAL_SIGN_TIME_INTERVAL True
                    (os_timer_setfn p (Some Vital_sign_broadcast) None (os_timer_disarm p s2))))"

definition device_info_disable :: "state \<Rightarrow> state" where
  "device_info_disable s =
     (let s1 = vital_sign_bcast_stop s
      in case udp_com_socket s1 of
           Some c \<Rightarrow> s1\<lparr>udp_com_socket := None\<rparr>
         | None \<Rightarrow> s1)"

definition zeroed_espconn :: espconn where
  "zeroed_espconn = \<lparr>conn_type = 0, conn_state = 0, proto_udp = None\<rparr>"

text \<open>
  \<^verbatim>\<open>device_info_init\<close> from the point where the socket exists. When the allocation
  of \<^verbatim>\<open>proto.udp\<close> fails the source frees the socket and goes on to write through
  the null pointer.
\<close>

definition device_info_init_socket :: "extern \<Rightarrow> espconn \<Rightarrow> state \<Rightarrow> state option" where
  "device_info_init_socket env c s =
     (case (case proto_udp c of
              Some u \<Rightarrow> (Some u, s)
            | None \<Rightarrow>
                (case sdk env Os_zalloc s of (r, s1) \<Rightarrow>
                   if r = 0 then (None, device_info_disable s1)
                   else (Some \<lparr>local_port = 0\<rparr>, s1))) of
        (None, s2) \<Rightarrow> None
      | (Some u, s2) \<Rightarrow>
          let s3 = s2\<lparr>udp_com_socket := Some (c\<lparr>conn_type := ESPCONN_UDP,
                         conn_state := ESPCONN_NONE,
                         proto_udp := Some (u\<lparr>local_port := DEVICE_COM_PORT\<rparr>)\<rparr>)\<rparr>
          in (case sdk env Espconn_create s3 of (r, s4) \<Rightarrow>
                if r = 0 then Some (sdk_void Espconn_regist_recvcb s4) else Some s4))"

definition device_info_init :: "extern \<Rightarrow> state \<Rightarrow> state option" where
  "device_info_init env s =
     (case udp_com_socket s of
        Some c \<Rightarrow> device_info_init_socket env c s
      | None \<Rightarrow>
          (case sdk env Os_zalloc s of (r, s1) \<Rightarrow>
             if r = 0 then Some s1
             else device_info_init_socket env zeroed_espconn
                    (s1\<lparr>udp_com_socket := Some zeroed_espconn\<rparr>)))"

section \<open>user_main.c\<close>

definition status_led_on :: "state \<Rightarrow> state" where
  "status_led_on s = gpio_output_set 0 (BIT STATUS_LED_GPIO) (BIT STATUS_LED_GPIO) 0 s"

definition status_led_off :: "state \<Rightarrow> state" where
  "status_led_off s = gpio_output_set (BIT STATUS_LED_GPIO) 0 (BIT STATUS_LED_GPIO) 0 s"

definition output_power_on :: "state \<Rightarrow> state" where
  "output_power_on s =
     gpio_output_set (BIT OUTPUT_POWER_RELAY_GPIO) 0 (BIT OUTPUT_POWER_RELAY_GPIO) 0 s"

definition output_power_off :: "state \<Rightarrow> state" where
  "output_power_off s =
     gpio_output_set 0 (BIT OUTPUT_POWER_RELAY_GPIO) (BIT OUTPUT_POWER_RELAY_GPIO) 0 s"

definition router_disable_cb :: "state \<Rightarrow> state" where
  "router_disable_cb s =
     (let s1 = device_info_disable s;
          s2 = sdk_void (Wifi_set_opmode NULL_MODE) (sdk_void Wifi_station_disconnect s1);
          s3 = s2\<lparr>wifi_event_handler_cb := None\<rparr>;
          s4 = (case led_blink_timer s3 of
                  Some p \<Rightarrow> (os_free_timer p (os_timer_disarm p s3))\<lparr>led_blink_timer := None\<rparr>
                | None \<Rightarrow> s3);
          s5 = (case router_conn_timeout_wdt s4 of
                  Some p \<Rightarrow>
                    (os_free_timer p (os_timer_disarm p s4))\<lparr>router_conn_timeout_wdt := None\<rparr>
                | None \<Rightarrow> s4);
          s6 = status_led_off s5
      in ETS_GPIO_INTR_ENABLE
           (GPIO_STATUS_W1TC (BIT BUTTON_INTERRUPT_GPIO) (ETS_GPIO_INTR_DISABLE s6)))"

definition router_conn_timeout_wdtfunc :: "state \<Rightarrow> state" where
  "router_conn_timeout_wdtfunc s = (if \<not> is_connected s then router_disable_cb s else s)"

text \<open>
  \<^verbatim>\<open>esptouch_over_timerfunc\<close> hands \<^verbatim>\<open>router_conn_timeout_wdt\<close> to
  \<^verbatim>\<open>os_timer_disarm\<close> without a null check; with a null handle it has no result.
\<close>

definition esptouch_over_timerfunc :: "extern \<Rightarrow> nat option \<Rightarrow> state \<Rightarrow> state option" where
  "esptouch_over_timerfunc env timer s =
     (if \<not> esptouch_is_running s then
        let s1 = (case timer of
                    Some p \<Rightarrow> os_free_timer p (os_timer_disarm p s)
                  | None \<Rightarrow> s)
        in if esptouch_was_successful s1 then
             let s2 = (case led_blink_timer s1 of
                         Some p \<Rightarrow>
                           (os_free_timer p (os_timer_disarm p s1))\<lparr>led_blink_timer := None\<rparr>
                       | None \<Rightarrow> s1);
                 s3 = status_led_on s2
             in (case router_conn_timeout_wdt s3 of
                   None \<Rightarrow> None
                 | Some w \<Rightarrow>
                     (case device_info_init env
                             (os_timer_arm w ROUTER_CONN_TIMEOUT_WDT_INTERVAL True
                                (os_timer_setfn w (Some Router_conn_timeout_wdtfunc) None
                                   (os_timer_disarm w s3))) of
                        None \<Rightarrow> None
                      | Some s4 \<Rightarrow> Some (vital_sign_bcast_start env s4)))
           else Some (router_disable_cb s1)
      else Some s)"

definition led_blink_timerfunc :: "state \<Rightarrow> state" where
  "led_blink_timerfunc s =
     (if gpio_out s AND BIT STATUS_LED_GPIO = 0 then status_led_off s else status_led_on s)"

definition router_enable :: "extern \<Rightarrow> user_config \<Rightarrow> state \<Rightarrow> bool \<times> state" where
  "router_enable env cfg s =
     (let s1 = (case led_blink_timer s of
                  None \<Rightarrow>
                    (case os_zalloc_timer env s of
                       (None, s') \<Rightarrow> s'\<lparr>led_blink_timer := None\<rparr>
                     | (Some p, s') \<Rightarrow>
                         os_timer_arm p LED_BLINK_INTERVAL True
                           (os_timer_setfn p (Some Led_blink_timerfunc) None
                              (os_timer_disarm p (s'\<lparr>led_blink_timer := Some p\<rparr>))))
                | Some p \<Rightarrow> s);
          s2 = (case router_conn_timeout_wdt s1 of
                  None \<Rightarrow> (case os_zalloc_timer env s1 of (p, s') \<Rightarrow>
                              s'\<lparr>router_conn_timeout_wdt := p\<rparr>)
                | Some p \<Rightarrow> s1)
      in case router_conn_timeout_wdt s2 of
           Some w \<Rightarrow>
             (case os_zalloc_timer env s2 of
                (Some esptouch_wait_timer, s3) \<Rightarrow>
                  (True,
                   esptouch_init env
                     (router_init env cfg
                        (os_timer_arm esptouch_wait_timer 500 True
                           (os_timer_setfn esptouch_wait_timer (Some Esptouch_over_timerfunc)
                              (Some esptouch_wait_timer)
                              (os_timer_disarm esptouch_wait_timer s3)))))
              | (None, s3) \<Rightarrow> (False, router_disable_cb s3))
         | None \<Rightarrow> (False, router_disable_cb s2))"

definition button_actuated_interrupt_handler :: "extern \<Rightarrow> user_config \<Rightarrow> state \<Rightarrow> state" where
  "button_actuated_interrupt_handler env cfg s =
     snd (router_enable env cfg (ETS_GPIO_INTR_DISABLE s))"

text \<open>
  \<^verbatim>\<open>gpio_pins_init\<close>: the pin multiplexer and the edge selection are set once and
  for all and are not carried by the model; the handler it attaches is
  \<open>button_actuated_interrupt_handler\<close>.
\<close>

definition gpio_pins_init :: "state \<Rightarrow> state" where
  "gpio_pins_init s =
     (let s1 = output_power_on (status_led_off s);
          s2 = gpio_output_set 0 0 0 (BIT BUTTON_INTERRUPT_GPIO) s1
      in ETS_GPIO_INTR_ENABLE
           (GPIO_STATUS_W1TC (BIT BUTTON_INTERRUPT_GPIO) (ETS_GPIO_INTR_DISABLE s2)))"

definition user_init :: "state \<Rightarrow> state" where
  "user_init s =
     gpio_pins_init
       ((sdk_void (Wifi_set_opmode NULL_MODE) (sdk_void Wifi_station_disconnect s))
          \<lparr>wifi_event_handler_cb := None\<rparr>)"

section \<open>The device as an event-driven system\<close>

text \<open>
  After power-on the static variables hold their initialisers, no timer exists and
  the GPIO registers hold whatever the hardware left in them.
\<close>

definition power_on :: "32 word \<Rightarrow> 32 word \<Rightarrow> 32 word \<Rightarrow> state" where
  "power_on out en st = \<lparr>
     gpio_out = out, gpio_enable = en, gpio_status = st, gpio_intr_enabled = False,
     timers = (\<lambda>p. None), next_addr = 0,
     led_blink_timer = None, router_conn_timeout_wdt = None,
     esptouch_func = \<lparr>esptouch_start_cb_ptr = None, esptouch_fail_cb_ptr = None,
                      esptouch_suc_cb_ptr = None\<rparr>,
     esptouch_running = False, esptouch_success = False, esptouch_attempt_count = 1,
     esptouch_timeout_timer = None,
     router_connected = False,
     udp_com_socket = None, vital_sign_timer = None,
     ip_portmap_table = None, wifi_event_handler_cb = None, trace = []\<rparr>"

text \<open>
  Everything the program does after \<^verbatim>\<open>user_init\<close> is a callback: the button's
  rising edge, a timer expiring, a smartconfig status report, a WiFi event. A callback
  runs to completion.
\<close>

datatype event =
    Button_edge
  | Timer_expiry nat
  | Sc_status sc_status
  | Wifi_event System_Event

fun run_timer_func :: "extern \<Rightarrow> func \<Rightarrow> nat option \<Rightarrow> state \<Rightarrow> state option" where
  "run_timer_func env Led_blink_timerfunc arg s = Some (led_blink_timerfunc s)"
| "run_timer_func env Router_conn_timeout_wdtfunc arg s = Some (router_conn_timeout_wdtfunc s)"
| "run_timer_func env Esptouch_over_timerfunc arg s = esptouch_over_timerfunc env arg s"
| "run_timer_func env Vital_sign_broadcast arg s = vital_sign_broadcast env s"
| "run_timer_func env (Esptouch f) arg s = Some (call_esptouch_fn f s)"

text \<open>
  What an event does to the state; \<open>None\<close> when the event cannot occur in the state
  (a timer that is not armed, a WiFi event with no handler registered) or the callback
  has no result. The edge of the button latches the interrupt status bit and runs the
  handler only while the GPIO interrupt is enabled. A one-shot timer is disarmed by its
  expiry.
\<close>

fun fire :: "extern \<Rightarrow> user_config \<Rightarrow> event \<Rightarrow> state \<Rightarrow> state option" where
  "fire env cfg Button_edge s =
     (let s1 = s\<lparr>gpio_status := gpio_status s OR BIT BUTTON_INTERRUPT_GPIO\<rparr>
      in if gpio_intr_enabled s then Some (button_actuated_interrupt_handler env cfg s1)
         else Some s1)"
| "fire env cfg (Timer_expiry p) s =
     (case timers s p of
        None \<Rightarrow> None
      | Some t \<Rightarrow>
          if timer_armed t then
            (case timer_func t of
               None \<Rightarrow> None
             | Some f \<Rightarrow>
                 run_timer_func env f (timer_arg t)
                   (if timer_repeat t then s else os_timer_disarm p s))
          else None)"
| "fire env cfg (Sc_status st) s = Some (esptouch_status_cb env st s)"
| "fire env cfg (Wifi_event evt) s =
     (case wifi_event_handler_cb s of
        Some Wifi_handle_event_cb \<Rightarrow> Some (wifi_handle_event_cb env cfg evt s)
      | None \<Rightarrow> None)"

inductive reachable :: "extern \<Rightarrow> user_config \<Rightarrow> state \<Rightarrow> bool"
  for env :: extern and cfg :: user_config where
    boot: "reachable env cfg (user_init (power_on out en st))"
  | step: "reachable env cfg s \<Longrightarrow> fire env cfg e s = Some s' \<Longrightarrow> reachable env cfg s'"

section \<open>An example environment\<close>

text \<open>
  For concrete runs: an address parser that knows the addresses of user_config.h
  (as 32-bit values in network byte order on a little-endian machine), an SDK whose
  calls all succeed and which reports the operating mode set last, and a translation
  engine that refuses the rule for port 8883 and accepts every other.
\<close>

definition example_ipaddr_addr :: "string \<Rightarrow> ip_addr" where
  "example_ipaddr_addr a =
     (if a = ''192.168.13.1'' then 0x010DA8C0
      else if a = ''192.168.13.2'' then 0x020DA8C0
      else if a = ''192.168.13.37'' then 0x250DA8C0
      else if a = ''192.168.13.64'' then 0x400DA8C0
      else if a = ''255.255.255.0'' then 0x00FFFFFF
      else 0xFFFFFFFF)"

definition last_opmode :: "sdk_call list \<Rightarrow> nat" where
  "last_opmode h = foldl (\<lambda>m c. case c of Wifi_set_opmode m' \<Rightarrow> m' | _ \<Rightarrow> m) NULL_MODE h"

definition example_sdk_ret :: "sdk_call list \<Rightarrow> sdk_call \<Rightarrow> nat" where
  "example_sdk_ret h c =
     (case c of Wifi_get_opmode \<Rightarrow> last_opmode h | Espconn_create \<Rightarrow> 0 | _ \<Rightarrow> 1)"

definition example_env :: extern where
  "example_env = \<lparr>
     sdk_ret = example_sdk_ret,
     ipaddr_addr = example_ipaddr_addr,
     ip_portmap_add = (\<lambda>pr ma mp da dp d tbl. (if mp = 8883 then 0 else 1, tbl))\<rparr>"


definition mqtt_slot :: "int \<Rightarrow> portmap_slot" where
  "mqtt_slot port = \<lparr>PORTMAP_ENABLE = 1, PORTMAP_PROTO = 6, PORTMAP_MPORT = port,
     PORTMAP_DADDR = Some ''192.168.13.37'', PORTMAP_DPORT = port, PORTMAP_DIR = 2\<rparr>"

section \<open>Notions used in the properties\<close>

text \<open>
  What the provisioning module keeps true of its three variables: never running and
  successful at once, and an attempt count between 1 and the limit.
\<close>

definition esptouch_ok :: "state \<Rightarrow> bool" where
  "esptouch_ok s \<longleftrightarrow>
     \<not> (esptouch_running s \<and> esptouch_success s)
     \<and> 1 \<le> uint (esptouch_attempt_count s)
     \<and> uint (esptouch_attempt_count s) \<le> ESP_TOUCH_ATTEMPTS_LIMIT"

text \<open>The heap after \<^verbatim>\<open>os_free\<close> of a handle that may be null.\<close>

definition free_handle :: "nat option \<Rightarrow> (nat \<Rightarrow> os_timer option) \<Rightarrow> (nat \<Rightarrow> os_timer option)" where
  "free_handle h m = (case h of None \<Rightarrow> m | Some p \<Rightarrow> m(p := None))"

text \<open>The state with the variables that router.c writes blanked out.\<close>

definition but_router :: "state \<Rightarrow> state" where
  "but_router s = s\<lparr>router_connected := False, ip_portmap_table := None,
     wifi_event_handler_cb := None, trace := []\<rparr>"

section \<open>The port-map table\<close>

text \<open>The loop of \<open>portmap_update\<close>, index by index, is a map over the table.\<close>

lemma portmap_update_loop_map:
  "idx \<le> length tbl \<Longrightarrow>
   portmap_update_loop addr idx tbl =
     take idx tbl @ map (\<lambda>e. if valid e \<noteq> 0 then e\<lparr>maddr := addr\<rparr> else e) (drop idx tbl)"
proof (induction addr idx tbl rule: portmap_update_loop.induct)
  case (1 addr idx tbl)
  show ?case
  proof (cases "idx < length tbl")
    case True
    let ?f = "\<lambda>e. if valid e \<noteq> 0 then e\<lparr>maddr := addr\<rparr> else e"
    let ?tbl' = "if valid (tbl ! idx) \<noteq> 0 then tbl[idx := (tbl ! idx)\<lparr>maddr := addr\<rparr>] else tbl"
    have len: "length ?tbl' = length tbl" by simp
    have ih: "portmap_update_loop addr (Suc idx) ?tbl' =
        take (Suc idx) ?tbl' @ map ?f (drop (Suc idx) ?tbl')"
      using "1.IH"[OF True] True len by simp
    have t: "take (Suc idx) ?tbl' = take idx tbl @ [?f (tbl ! idx)]"
      using True by (simp add: take_Suc_conv_app_nth)
    have d: "drop (Suc idx) ?tbl' = drop (Suc idx) tbl"
      by simp
    have "drop idx tbl = tbl ! idx # drop (Suc idx) tbl"
      using True by (simp add: Cons_nth_drop_Suc)
    then show ?thesis
      using True ih t d
      by (simp del: portmap_update_loop.simps add: portmap_update_loop.simps[of addr idx tbl])
  next
    case False
    then show ?thesis using 1(2) by simp
  qed
qed

text \<open>Running the slots of a list in two parts.\<close>

lemma portmap_init_slots_append:
  "portmap_init_slots env (pre @ rest) s =
     (case portmap_init_slots env pre s of
        (ok, s1) \<Rightarrow> if ok then portmap_init_slots env rest s1 else (False, s1))"
  by (induction pre arbitrary: s) (auto split: option.splits prod.splits simp: Let_def)

text \<open>
  C1, as the spec states it, fails. With the eight slots of user_config.h, the first
  and the second enabled and complete, and an engine that refuses the first rule:
  \<open>portmap_init\<close> returns false and the only install it has attempted is the first;
  the second rule, which the engine would have accepted, is never handed to it.
\<close>

theorem portmap_init_later_slot_not_attempted:
  "fst (portmap_init example_env
          (user_config_h\<lparr>PORTMAP := [mqtt_slot 8883, mqtt_slot 1883, unused_slot, unused_slot,
             unused_slot, unused_slot, unused_slot, unused_slot]\<rparr>) (power_on 0 0 0)) = False \<and>
   trace (snd (portmap_init example_env
          (user_config_h\<lparr>PORTMAP := [mqtt_slot 8883, mqtt_slot 1883, unused_slot, unused_slot,
             unused_slot, unused_slot, unused_slot, unused_slot]\<rparr>) (power_on 0 0 0)))
     = [Ip_portmap_add 6 0 8883 0x250DA8C0 8883 2] \<and>
   portmap_init example_env
          (user_config_h\<lparr>PORTMAP := [mqtt_slot 1883]\<rparr>) (power_on 0 0 0)
     = (True, (power_on 0 0 0)\<lparr>trace := [Ip_portmap_add 6 0 1883 0x250DA8C0 1883 2]\<rparr>)"
  by (simp add: portmap_init_def mqtt_slot_def unused_slot_def example_env_def
        example_ipaddr_addr_def power_on_def)

text \<open>
  C1, amended: when the slots before it have been processed with success and an
  enabled slot with all required fields non-zero fails to install, \<open>portmap_init\<close>
  returns false at once: the state it leaves is the one of the failed install, with no
  later slot attempted, whatever the later slots are. \<open>router_init\<close> goes on whatever
  \<open>portmap_init\<close> returns and registers the WiFi event handler.
\<close>

theorem portmap_init_stops_at_failed_install:
  assumes "portmap_init_slots env pre s = (True, s1)"
    and "PORTMAP_ENABLE p \<noteq> 0"
    and "PORTMAP_PROTO p \<noteq> 0" and "PORTMAP_MPORT p \<noteq> 0" and "PORTMAP_DADDR p = Some a"
    and "PORTMAP_DPORT p \<noteq> 0" and "PORTMAP_DIR p \<noteq> 0"
    and "ip_portmap_add env (PORTMAP_PROTO p) 0 (PORTMAP_MPORT p) (ipaddr_addr env a)
           (PORTMAP_DPORT p) (PORTMAP_DIR p) (ip_portmap_table s1) = (0, tbl)"
  shows "portmap_init env (cfg\<lparr>PORTMAP := pre @ p # post\<rparr>) s =
           (False, s1\<lparr>ip_portmap_table := tbl,
                      trace := trace s1 @ [Ip_portmap_add (PORTMAP_PROTO p) 0 (PORTMAP_MPORT p)
                         (ipaddr_addr env a) (PORTMAP_DPORT p) (PORTMAP_DIR p)]\<rparr>)
         \<and> wifi_event_handler_cb (router_init env (cfg\<lparr>PORTMAP := pre @ p # post\<rparr>) s0)
             = Some Wifi_handle_event_cb"
proof -
  have "portmap_init_slots env (p # post) s1 =
           (False, s1\<lparr>ip_portmap_table := tbl,
                      trace := trace s1 @ [Ip_portmap_add (PORTMAP_PROTO p) 0 (PORTMAP_MPORT p)
                         (ipaddr_addr env a) (PORTMAP_DPORT p) (PORTMAP_DIR p)]\<rparr>)"
    using assms(2-) by simp
  then have "portmap_init_slots env (pre @ p # post) s =
           (False, s1\<lparr>ip_portmap_table := tbl,
                      trace := trace s1 @ [Ip_portmap_add (PORTMAP_PROTO p) 0 (PORTMAP_MPORT p)
                         (ipaddr_addr env a) (PORTMAP_DPORT p) (PORTMAP_DIR p)]\<rparr>)"
    using assms(1) by (simp add: portmap_init_slots_append del: portmap_init_slots.simps)
  moreover have "wifi_event_handler_cb (router_init env c s0) = Some Wifi_handle_event_cb" for c
    by (simp add: router_init_def split: prod.splits)
  ultimately show ?thesis by (simp add: portmap_init_def)
qed

theorem portmap_init_stops_at_failed_install_witness:
  "portmap_init_slots example_env [mqtt_slot 1883] (power_on 0 0 0)
      = (True, (power_on 0 0 0)\<lparr>trace := [Ip_portmap_add 6 0 1883 0x250DA8C0 1883 2]\<rparr>) \<and>
   PORTMAP_ENABLE (mqtt_slot 8883) \<noteq> 0 \<and> PORTMAP_PROTO (mqtt_slot 8883) \<noteq> 0 \<and>
   PORTMAP_MPORT (mqtt_slot 8883) \<noteq> 0 \<and> PORTMAP_DADDR (mqtt_slot 8883) = Some ''192.168.13.37'' \<and>
   PORTMAP_DPORT (mqtt_slot 8883) \<noteq> 0 \<and> PORTMAP_DIR (mqtt_slot 8883) \<noteq> 0 \<and>
   ip_portmap_add example_env 6 0 8883 0x250DA8C0 8883 2 None = (0, None) \<and>
   portmap_init example_env
      (user_config_h\<lparr>PORTMAP := [mqtt_slot 1883, mqtt_slot 8883, mqtt_slot 1884]\<rparr>) (power_on 0 0 0)
      = (False, (power_on 0 0 0)\<lparr>trace := [Ip_portmap_add 6 0 1883 0x250DA8C0 1883 2,
                                             Ip_portmap_add 6 0 8883 0x250DA8C0 8883 2]\<rparr>)"
proof -
  have pre: "portmap_init_slots example_env [mqtt_slot 1883] (power_on 0 0 0)
      = (True, (power_on 0 0 0)\<lparr>trace := [Ip_portmap_add 6 0 1883 0x250DA8C0 1883 2]\<rparr>)"
    by (simp add: mqtt_slot_def example_env_def example_ipaddr_addr_def power_on_def)
  show ?thesis
    using pre portmap_init_stops_at_failed_install[OF pre, where p = "mqtt_slot 8883"
        and a = "''192.168.13.37''" and tbl = None and cfg = user_config_h
        and post = "[mqtt_slot 1884]"]
    by (simp add: mqtt_slot_def example_env_def example_ipaddr_addr_def power_on_def)
qed

text \<open>The whole of \<open>portmap_update\<close> as one update of the state.\<close>

lemma portmap_update_eq:
  "portmap_update (Some addr) s =
     s\<lparr>ip_portmap_table :=
         map_option (map (\<lambda>e. if valid e \<noteq> 0 then e\<lparr>maddr := addr\<rparr> else e))
           (ip_portmap_table s)\<rparr>"
proof (cases "ip_portmap_table s")
  case None
  then show ?thesis by (simp add: portmap_update_def)
next
  case (Some tbl)
  have "portmap_update_loop addr 0 tbl =
          map (\<lambda>e. if valid e \<noteq> 0 then e\<lparr>maddr := addr\<rparr> else e) tbl"
    using portmap_update_loop_map[of 0 tbl addr] by simp
  then show ?thesis using Some by (simp add: portmap_update_def)
qed

text \<open>
  C5: \<open>portmap_update\<close> with a new uplink address changes nothing of the state but
  the port-map table, and of the table nothing but the mapping address of the valid
  entries, which becomes the new address. An entry that is not valid stays as it is,
  and so does every other field of a valid entry; with no table there is nothing to do.
\<close>

theorem portmap_update_rewrites_maddr_only:
  "portmap_update (Some addr) s =
     s\<lparr>ip_portmap_table :=
         map_option (map (\<lambda>e. if valid e \<noteq> 0 then e\<lparr>maddr := addr\<rparr> else e))
           (ip_portmap_table s)\<rparr>"
  by (rule portmap_update_eq)

text \<open>
  C6: a slot in which the protocol, the mapping port, the destination address, the
  destination port or the direction is zero takes no part in \<open>portmap_init\<close>, whatever
  its enable flag: the result, the installs attempted and the state are those of the
  configuration without the slot.
\<close>

theorem portmap_init_skips_incomplete_slot:
  assumes "PORTMAP_PROTO p = 0 \<or> PORTMAP_MPORT p = 0 \<or> PORTMAP_DADDR p = None
           \<or> PORTMAP_DPORT p = 0 \<or> PORTMAP_DIR p = 0"
  shows "portmap_init env (cfg\<lparr>PORTMAP := pre @ p # post\<rparr>) s =
         portmap_init env (cfg\<lparr>PORTMAP := pre @ post\<rparr>) s"
proof -
  have skip: "portmap_init_slots env (p # post) s1 = portmap_init_slots env post s1" for s1
    using assms by (auto split: option.splits)
  show ?thesis
    unfolding portmap_init_def
    by (cases "portmap_init_slots env pre s")
       (simp add: portmap_init_slots_append skip del: portmap_init_slots.simps)
qed

theorem portmap_init_skips_incomplete_slot_witness:
  "PORTMAP_PROTO (unused_slot\<lparr>PORTMAP_ENABLE := 1\<rparr>) = 0 \<and>
   portmap_init example_env
      (user_config_h\<lparr>PORTMAP :=
         [mqtt_slot 1883] @ unused_slot\<lparr>PORTMAP_ENABLE := 1\<rparr> # [mqtt_slot 1884]\<rparr>)
      (power_on 0 0 0) =
   portmap_init example_env
      (user_config_h\<lparr>PORTMAP := [mqtt_slot 1883] @ [mqtt_slot 1884]\<rparr>) (power_on 0 0 0)"
  using portmap_init_skips_incomplete_slot[where p = "unused_slot\<lparr>PORTMAP_ENABLE := 1\<rparr>"
      and env = example_env and cfg = user_config_h and pre = "[mqtt_slot 1883]"
      and post = "[mqtt_slot 1884]" and s = "power_on 0 0 0"]
  by (simp add: unused_slot_def)

section \<open>The access point's subnet\<close>

lemma low24: "(0x00FFFFFF :: 32 word) = mask 24"
  by (simp add: mask_eq_exp_minus_1)

lemma ip4_addr4_set_get: "ip4_addr4 (ip4_addr4_set a v) = v"
  unfolding ip4_addr4_def ip4_addr4_set_def low24
  by (rule bit_word_eqI) (auto simp: bit_simps)

lemma ip4_addr4_set_low: "ip4_addr4_set a v AND 0x00FFFFFF = a AND 0x00FFFFFF"
  unfolding ip4_addr4_set_def low24
  by (rule bit_word_eqI) (auto simp: bit_simps)



text \<open>
  C8: when \<open>softap_network_config\<close> gets as far as setting the IP information (the
  DHCP server has stopped), the address it hands to \<^verbatim>\<open>wifi_set_ip_info\<close> for the
  access-point interface has fourth octet 1 and the first three octets of the configured
  \<open>WIFI_AP_NETWORK_ADDR\<close>, whatever the configured fourth octet; and no call of
  \<open>softap_network_config\<close> ever passes an address with another fourth octet to
  \<^verbatim>\<open>wifi_set_ip_info\<close> or \<^verbatim>\<open>ip_napt_enable\<close>.
\<close>

theorem softap_host_octet_is_one:
  "(sdk_ret env (trace s) Wifi_softap_dhcps_stop \<noteq> 0 \<longrightarrow>
      (\<exists>info. trace (snd (softap_network_config env cfg s)) ! Suc (length (trace s))
                 = Wifi_set_ip_info SOFTAP_IF info
             \<and> ip4_addr4 (ip info) = 1
             \<and> ip info AND 0x00FFFFFF = ipaddr_addr env (WIFI_AP_NETWORK_ADDR cfg) AND 0x00FFFFFF))
   \<and> (\<forall>c \<in> set (drop (length (trace s)) (trace (snd (softap_network_config env cfg s)))).
         (\<forall>ifc info. c = Wifi_set_ip_info ifc info \<longrightarrow> ifc = SOFTAP_IF \<and> ip4_addr4 (ip info) = 1)
       \<and> (\<forall>a e. c = Ip_napt_enable a e \<longrightarrow> ip4_addr4 a = 1))"
  by (simp add: softap_network_config_def sdk_def sdk_void_def Let_def nth_append
        ip4_addr4_set_get ip4_addr4_set_low)

theorem softap_host_octet_is_one_witness:
  "sdk_ret example_env (trace (power_on 0 0 0)) Wifi_softap_dhcps_stop \<noteq> 0 \<and>
   trace (snd (softap_network_config example_env user_config_h (power_on 0 0 0))) ! 1
     = Wifi_set_ip_info SOFTAP_IF \<lparr>ip = 0x010DA8C0, netmask = 0x00FFFFFF, gw = 0x010DA8C0\<rparr> \<and>
   ip4_addr4 0x010DA8C0 = 1 \<and>
   trace (snd (softap_network_config example_env
      (user_config_h\<lparr>WIFI_AP_NETWORK_ADDR := ''192.168.13.37''\<rparr>) (power_on 0 0 0))) ! 1
     = Wifi_set_ip_info SOFTAP_IF \<lparr>ip = 0x010DA8C0, netmask = 0x00FFFFFF, gw = 0x010DA8C0\<rparr>"
  using softap_host_octet_is_one[of example_env "power_on 0 0 0" user_config_h]
  by (simp add: example_env_def example_sdk_ret_def last_opmode_def
        example_ipaddr_addr_def user_config_h_def power_on_def SOFTAP_IF_def NULL_MODE_def softap_network_config_def sdk_def sdk_void_def Let_def
        ip4_addr4_def ip4_addr4_set_def)



section \<open>Teardown\<close>

text \<open>The whole of \<open>router_disable_cb\<close> as one update of the state.\<close>

lemma router_disable_cb_eq:
  "router_disable_cb s = s\<lparr>
      gpio_out := gpio_out s OR BIT STATUS_LED_GPIO,
      gpio_enable := gpio_enable s OR BIT STATUS_LED_GPIO,
      gpio_status := gpio_status s AND NOT (BIT BUTTON_INTERRUPT_GPIO),
      gpio_intr_enabled := True,
      timers := free_handle (router_conn_timeout_wdt s) (free_handle (led_blink_timer s)
                  (free_handle (vital_sign_timer s) (timers s))),
      led_blink_timer := None,
      router_conn_timeout_wdt := None,
      udp_com_socket := None,
      vital_sign_timer := None,
      wifi_event_handler_cb := None,
      trace := trace s @ [Wifi_station_disconnect, Wifi_set_opmode NULL_MODE]\<rparr>"
  by (simp add: router_disable_cb_def device_info_disable_def vital_sign_bcast_stop_def
        sdk_void_def status_led_off_def gpio_output_set_def ETS_GPIO_INTR_ENABLE_def
        ETS_GPIO_INTR_DISABLE_def GPIO_STATUS_W1TC_def os_free_timer_def os_timer_disarm_def
        free_handle_def Let_def
      split: option.splits)

lemma bit_BIT: "bit (BIT n) m \<longleftrightarrow> m = n \<and> n < 32"
  by (auto simp: BIT_def bit_simps)



text \<open>
  C9: teardown leaves the output-power relay as it is: the bit of
  \<open>OUTPUT_POWER_RELAY_GPIO\<close> in the GPIO output register and in the output-enable
  register is the same before and after, and so is every bit other than the status
  LED's; a relay switched on stays on and one switched off stays off. Teardown does not
  write the variables of the provisioning module, \<open>router_connected\<close> or the port-map
  table either.
\<close>

theorem router_disable_cb_keeps_output_power:
  "bit (gpio_out (router_disable_cb s)) OUTPUT_POWER_RELAY_GPIO
     = bit (gpio_out s) OUTPUT_POWER_RELAY_GPIO
   \<and> bit (gpio_enable (router_disable_cb s)) OUTPUT_POWER_RELAY_GPIO
     = bit (gpio_enable s) OUTPUT_POWER_RELAY_GPIO
   \<and> gpio_out (router_disable_cb s) AND NOT (BIT STATUS_LED_GPIO)
     = gpio_out s AND NOT (BIT STATUS_LED_GPIO)
   \<and> gpio_enable (router_disable_cb s) AND NOT (BIT STATUS_LED_GPIO)
     = gpio_enable s AND NOT (BIT STATUS_LED_GPIO)
   \<and> bit (gpio_out (router_disable_cb (output_power_on s))) OUTPUT_POWER_RELAY_GPIO
   \<and> \<not> bit (gpio_out (router_disable_cb (output_power_off s))) OUTPUT_POWER_RELAY_GPIO
   \<and> esptouch_func (router_disable_cb s) = esptouch_func s
   \<and> esptouch_running (router_disable_cb s) = esptouch_running s
   \<and> esptouch_success (router_disable_cb s) = esptouch_success s
   \<and> esptouch_attempt_count (router_disable_cb s) = esptouch_attempt_count s
   \<and> esptouch_timeout_timer (router_disable_cb s) = esptouch_timeout_timer s
   \<and> router_connected (router_disable_cb s) = router_connected s
   \<and> ip_portmap_table (router_disable_cb s) = ip_portmap_table s
   \<and> next_addr (router_disable_cb s) = next_addr s"
proof -
  have "(gpio_out s OR BIT STATUS_LED_GPIO) AND NOT (BIT STATUS_LED_GPIO)
      = gpio_out s AND NOT (BIT STATUS_LED_GPIO)"
    by (rule bit_word_eqI) (auto simp: bit_simps bit_BIT)
  moreover have "(gpio_enable s OR BIT STATUS_LED_GPIO) AND NOT (BIT STATUS_LED_GPIO)
      = gpio_enable s AND NOT (BIT STATUS_LED_GPIO)"
    by (rule bit_word_eqI) (auto simp: bit_simps bit_BIT)
  ultimately show ?thesis
    by (simp add: router_disable_cb_eq bit_simps bit_BIT STATUS_LED_GPIO_def
        OUTPUT_POWER_RELAY_GPIO_def output_power_on_def output_power_off_def gpio_output_set_def)
qed

section \<open>The provisioning module\<close>

lemmas timer_prims = os_free_timer_def os_timer_disarm_def os_timer_setfn_def os_timer_arm_def
  os_zalloc_timer_def sdk_def sdk_void_def











lemma but_router_sdk [simp]:
  "but_router (snd (sdk env c s)) = but_router s"
  "but_router (sdk_void c s) = but_router s"
  by (simp_all add: but_router_def sdk_def sdk_void_def)

lemma but_router_upd [simp]:
  "but_router (s\<lparr>router_connected := rc\<rparr>) = but_router s"
  "but_router (s\<lparr>ip_portmap_table := tbl\<rparr>) = but_router s"
  "but_router (s\<lparr>wifi_event_handler_cb := h\<rparr>) = but_router s"
  "but_router (s\<lparr>trace := tr\<rparr>) = but_router s"
  by (simp_all add: but_router_def)

lemma portmap_init_slots_frame:
  "but_router (snd (portmap_init_slots env ps s)) = but_router s"
  by (induction ps arbitrary: s) (auto simp: Let_def split: option.splits prod.splits)

lemma router_init_frame: "but_router (router_init env cfg s) = but_router s"
  using portmap_init_slots_frame[of env "PORTMAP cfg" "s\<lparr>router_connected := False\<rparr>"]
  by (auto simp: router_init_def portmap_init_def split: prod.splits)




lemma but_routerD:
  assumes "but_router s' = but_router s"
  shows "gpio_out s' = gpio_out s" "gpio_enable s' = gpio_enable s"
    "gpio_status s' = gpio_status s" "gpio_intr_enabled s' = gpio_intr_enabled s"
    "timers s' = timers s" "next_addr s' = next_addr s"
    "led_blink_timer s' = led_blink_timer s"
    "router_conn_timeout_wdt s' = router_conn_timeout_wdt s"
    "esptouch_func s' = esptouch_func s" "esptouch_running s' = esptouch_running s"
    "esptouch_success s' = esptouch_success s"
    "esptouch_attempt_count s' = esptouch_attempt_count s"
    "esptouch_timeout_timer s' = esptouch_timeout_timer s"
    "udp_com_socket s' = udp_com_socket s" "vital_sign_timer s' = vital_sign_timer s"
proof -
  have "f (but_router s') = f (but_router s)" for f :: "state \<Rightarrow> 'a"
    using assms by simp
  note * = this
  show "gpio_out s' = gpio_out s" using *[of gpio_out] by (simp add: but_router_def)
  show "gpio_enable s' = gpio_enable s" using *[of gpio_enable] by (simp add: but_router_def)
  show "gpio_status s' = gpio_status s" using *[of gpio_status] by (simp add: but_router_def)
  show "gpio_intr_enabled s' = gpio_intr_enabled s"
    using *[of gpio_intr_enabled] by (simp add: but_router_def)
  show "timers s' = timers s" using *[of timers] by (simp add: but_router_def)
  show "next_addr s' = next_addr s" using *[of next_addr] by (simp add: but_router_def)
  show "led_blink_timer s' = led_blink_timer s"
    using *[of led_blink_timer] by (simp add: but_router_def)
  show "router_conn_timeout_wdt s' = router_conn_timeout_wdt s"
    using *[of router_conn_timeout_wdt] by (simp add: but_router_def)
  show "esptouch_func s' = esptouch_func s" using *[of esptouch_func] by (simp add: but_router_def)
  show "esptouch_running s' = esptouch_running s"
    using *[of esptouch_running] by (simp add: but_router_def)
  show "esptouch_success s' = esptouch_success s"
    using *[of esptouch_success] by (simp add: but_router_def)
  show "esptouch_attempt_count s' = esptouch_attempt_count s"
    using *[of esptouch_attempt_count] by (simp add: but_router_def)
  show "esptouch_timeout_timer s' = esptouch_timeout_timer s"
    using *[of esptouch_timeout_timer] by (simp add: but_router_def)
  show "udp_com_socket s' = udp_com_socket s"
    using *[of udp_com_socket] by (simp add: but_router_def)
  show "vital_sign_timer s' = vital_sign_timer s"
    using *[of vital_sign_timer] by (simp add: but_router_def)
qed

lemma esptouch_ok_cong:
  "esptouch_running s' = esptouch_running s \<Longrightarrow> esptouch_success s' = esptouch_success s \<Longrightarrow>
   esptouch_attempt_count s' = esptouch_attempt_count s \<Longrightarrow> esptouch_ok s' = esptouch_ok s"
  by (simp add: esptouch_ok_def)



lemma esptouch_ok_device_info_disable: "esptouch_ok (device_info_disable s) = esptouch_ok s"
  by (rule esptouch_ok_cong)
     (simp_all add: device_info_disable_def vital_sign_bcast_stop_def timer_prims Let_def
        split: option.splits)





lemma esptouch_ok_upd [simp]:
  "esptouch_ok (s\<lparr>gpio_out := a1\<rparr>) = esptouch_ok s"
  "esptouch_ok (s\<lparr>gpio_enable := a2\<rparr>) = esptouch_ok s"
  "esptouch_ok (s\<lparr>gpio_status := a3\<rparr>) = esptouch_ok s"
  "esptouch_ok (s\<lparr>gpio_intr_enabled := a4\<rparr>) = esptouch_ok s"
  "esptouch_ok (s\<lparr>timers := a5\<rparr>) = esptouch_ok s"
  "esptouch_ok (s\<lparr>next_addr := a6\<rparr>) = esptouch_ok s"
  "esptouch_ok (s\<lparr>led_blink_timer := a7\<rparr>) = esptouch_ok s"
  "esptouch_ok (s\<lparr>router_conn_timeout_wdt := a8\<rparr>) = esptouch_ok s"
  "esptouch_ok (s\<lparr>esptouch_func := a9\<rparr>) = esptouch_ok s"
  "esptouch_ok (s\<lparr>esptouch_timeout_timer := a10\<rparr>) = esptouch_ok s"
  "esptouch_ok (s\<lparr>router_connected := a11\<rparr>) = esptouch_ok s"
  "esptouch_ok (s\<lparr>udp_com_socket := a12\<rparr>) = esptouch_ok s"
  "esptouch_ok (s\<lparr>vital_sign_timer := a13\<rparr>) = esptouch_ok s"
  "esptouch_ok (s\<lparr>ip_portmap_table := a14\<rparr>) = esptouch_ok s"
  "esptouch_ok (s\<lparr>wifi_event_handler_cb := a15\<rparr>) = esptouch_ok s"
  "esptouch_ok (s\<lparr>trace := a16\<rparr>) = esptouch_ok s"
  by (simp_all add: esptouch_ok_def)

lemma esptouch_ok_router_init: "esptouch_ok (router_init env cfg s) = esptouch_ok s"
  by (rule esptouch_ok_cong) (simp_all add: but_routerD[OF router_init_frame])








end
